theory Spec2Isabelle
  imports Complex_Main
begin

section \<open>The Montelukast risk engine (\<open>src/script.js\<close>)\<close>

text \<open>
  The source file holds two builds of the object \<open>RiskEngine\<close>. The first (lines 6--166)
  takes the duration in weeks and knows the brand and the co-administered drugs; the second
  (lines 360--508) takes the duration in months and has five parameters only. Both are
  embedded here; the names of the second build carry the suffix \<open>_months\<close>.

  JavaScript numbers are modelled as exact rationals together with \<open>NaN\<close>: the rounding
  of IEEE-754 doubles is not part of the model. Every constant of the tables is a short
  decimal, so each risk value below is the exact decimal value of the expression that the
  code evaluates in doubles. Over all combinations of table entries the label and the
  percentage in doubles are those of the exact values, but for one: with baseline \<open>0.325\<close>,
  both multipliers \<open>1.0\<close>, adder \<open>0.25\<close> and no boost, the exact \<open>57.5\<close> rounds to
  \<open>58\<close>, while the product in doubles lies just below \<open>57.5\<close> and rounds to \<open>57\<close>.
  No statement below depends on the value at that input.
\<close>

subsection \<open>JavaScript values\<close>

text \<open>
  \<open>jsarg\<close>: what the arguments \<open>ageInput\<close> and \<open>durationWeeks\<close> may be: absent
  (\<open>undefined\<close>), \<open>null\<close>, the empty string, or a number (finite, infinite or \<open>NaN\<close>).
  The two arguments are only tested and compared, never used in arithmetic.
\<close>

datatype jsarg = Undefined | Null | EmptyString | NotANumber | PosInfinity | NegInfinity | Number rat

text \<open>\<open>jsnum\<close>: the numbers that the arithmetic of \<open>calculate\<close> produces.\<close>

datatype jsnum = NaN | Num rat

text \<open>
  \<open>jsprop\<close>: the result of a property read \<open>table[key]\<close> on one of the object literals:
  a number stored in the literal, \<open>undefined\<close>, or a property that the literal inherits from
  \<open>Object.prototype\<close> (a function, or \<open>Object.prototype\<close> itself for \<open>__proto__\<close>).
\<close>

datatype jsprop = PUndefined | PNum rat | PObject

datatype error = TypeError

text \<open>\<open>!v\<close> for an argument: \<open>undefined\<close>, \<open>null\<close>, \<open>''\<close>, \<open>NaN\<close> and \<open>0\<close> are falsy.\<close>

fun js_not :: "jsarg \<Rightarrow> bool" where
  "js_not Undefined = True"
| "js_not Null = True"
| "js_not EmptyString = True"
| "js_not NotANumber = True"
| "js_not (Number r) = (r = 0)"
| "js_not PosInfinity = False"
| "js_not NegInfinity = False"

text \<open>
  \<open>v >= c\<close>, \<open>v < c\<close> and \<open>v <= c\<close> for an argument \<open>v\<close> and a numeric literal \<open>c\<close>:
  \<open>v\<close> is converted to a number (\<open>undefined\<close> to \<open>NaN\<close>, \<open>null\<close> and \<open>''\<close> to \<open>0\<close>),
  and every comparison with \<open>NaN\<close> is false.
\<close>

fun js_ge :: "jsarg \<Rightarrow> rat \<Rightarrow> bool" where
  "js_ge (Number r) c = (r \<ge> c)"
| "js_ge PosInfinity c = True"
| "js_ge NegInfinity c = False"
| "js_ge NotANumber c = False"
| "js_ge Undefined c = False"
| "js_ge Null c = (0 \<ge> c)"
| "js_ge EmptyString c = (0 \<ge> c)"

fun js_lt :: "jsarg \<Rightarrow> rat \<Rightarrow> bool" where
  "js_lt (Number r) c = (r < c)"
| "js_lt PosInfinity c = False"
| "js_lt NegInfinity c = True"
| "js_lt NotANumber c = False"
| "js_lt Undefined c = False"
| "js_lt Null c = (0 < c)"
| "js_lt EmptyString c = (0 < c)"

fun js_le :: "jsarg \<Rightarrow> rat \<Rightarrow> bool" where
  "js_le (Number r) c = (r \<le> c)"
| "js_le PosInfinity c = False"
| "js_le NegInfinity c = True"
| "js_le NotANumber c = False"
| "js_le Undefined c = False"
| "js_le Null c = (0 \<le> c)"
| "js_le EmptyString c = (0 \<le> c)"

text \<open>
  The names that every object literal inherits from \<open>Object.prototype\<close>. A read
  \<open>table[key]\<close> finds them when the literal has no own property \<open>key\<close>.
\<close>

definition OBJECT_PROTOTYPE :: "string list" where
  "OBJECT_PROTOTYPE =
    [''constructor'', ''__defineGetter__'', ''__defineSetter__'', ''hasOwnProperty'',
     ''__lookupGetter__'', ''__lookupSetter__'', ''isPrototypeOf'', ''propertyIsEnumerable'',
     ''toString'', ''valueOf'', ''__proto__'', ''toLocaleString'']"

text \<open>\<open>table[key]\<close>: own properties first, then the prototype, else \<open>undefined\<close>.\<close>

definition js_get :: "(string \<times> rat) list \<Rightarrow> string \<Rightarrow> jsprop" where
  "js_get table key =
    (case map_of table key of
       Some v \<Rightarrow> PNum v
     | None \<Rightarrow> if key \<in> set OBJECT_PROTOTYPE then PObject else PUndefined)"

text \<open>\<open>a || d\<close> with a numeric literal \<open>d\<close>: \<open>a\<close> itself when it is truthy.\<close>

fun js_or :: "jsprop \<Rightarrow> rat \<Rightarrow> jsprop" where
  "js_or PUndefined d = PNum d"
| "js_or (PNum v) d = (if v = 0 then PNum d else PNum v)"
| "js_or PObject d = PObject"

text \<open>
  Conversion to a number, as \<open>*\<close> applies it to its operands: a function or
  \<open>Object.prototype\<close> converts to a string that is no numeral, hence to \<open>NaN\<close>.
\<close>

fun toNumber :: "jsprop \<Rightarrow> jsnum" where
  "toNumber (PNum v) = Num v"
| "toNumber PUndefined = NaN"
| "toNumber PObject = NaN"

fun js_times :: "jsnum \<Rightarrow> jsnum \<Rightarrow> jsnum" where
  "js_times (Num a) (Num b) = Num (a * b)"
| "js_times _ _ = NaN"

fun js_plus :: "jsnum \<Rightarrow> jsnum \<Rightarrow> jsnum" where
  "js_plus (Num a) (Num b) = Num (a + b)"
| "js_plus _ _ = NaN"

text \<open>\<open>Math.max\<close> returns \<open>NaN\<close> when an argument is \<open>NaN\<close>.\<close>

fun Math_max :: "jsnum \<Rightarrow> jsnum \<Rightarrow> jsnum" where
  "Math_max (Num a) (Num b) = Num (max a b)"
| "Math_max _ _ = NaN"

text \<open>\<open>Math.round\<close> rounds to the nearest integer, a half upwards.\<close>

fun Math_round :: "jsnum \<Rightarrow> jsnum" where
  "Math_round (Num a) = Num (of_int \<lfloor>a + 1/2\<rfloor>)"
| "Math_round NaN = NaN"

text \<open>Comparisons of a number with a literal; false on \<open>NaN\<close>.\<close>

fun num_gt :: "jsnum \<Rightarrow> rat \<Rightarrow> bool" where
  "num_gt (Num a) c = (a > c)"
| "num_gt NaN c = False"

fun num_lt :: "jsnum \<Rightarrow> rat \<Rightarrow> bool" where
  "num_lt (Num a) c = (a < c)"
| "num_lt NaN c = False"

fun num_ge :: "jsnum \<Rightarrow> rat \<Rightarrow> bool" where
  "num_ge (Num a) c = (a \<ge> c)"
| "num_ge NaN c = False"

subsection \<open>The reference tables\<close>

definition AGE_BASELINES :: "(string \<times> rat) list" where
  "AGE_BASELINES =
    [(''16-18'', 0.14), (''13-15'', 0.325), (''10-12'', 0.535),
     (''7-9'', 0.69), (''4-6'', 0.85), (''1-3'', 0.94)]"

definition DOSE_MULTIPLIERS :: "(string \<times> rat) list" where
  "DOSE_MULTIPLIERS = [(''4mg'', 1.0), (''5mg'', 1.1), (''10mg'', 1.25)]"

definition DURATION_MULTIPLIERS :: "(string \<times> rat) list" where
  "DURATION_MULTIPLIERS = [(''short'', 1.0), (''medium'', 1.1), (''long'', 1.2)]"

definition HIGH_RISK :: "string list" where
  "HIGH_RISK =
    [''Suicidal ideation / self-harm thoughts'',
     ''Suicide attempt'',
     ''Severe depression'',
     ''Psychosis / hallucinations'',
     ''Severe aggression or violent behavior'',
     ''Extreme mood swings'',
     ''Severe anxiety with panic attacks'',
     ''Personality changes (sudden, marked)'',
     ''Disorientation / confusion'',
     ''Loss of reality contact'',
     ''Behavioral regression (in children)'']"

subsection \<open>The helpers\<close>

definition getAgeGroupKey :: "jsarg \<Rightarrow> string" where
  "getAgeGroupKey age =
    (if js_not age then ''7-9''
     else if js_ge age 16 then ''16-18''
     else if js_ge age 13 then ''13-15''
     else if js_ge age 10 then ''10-12''
     else if js_ge age 7 then ''7-9''
     else if js_ge age 4 then ''4-6''
     else ''1-3'')"

text \<open>The build that counts weeks (line 82).\<close>

definition getDurationKey :: "jsarg \<Rightarrow> string" where
  "getDurationKey weeks =
    (if weeks = EmptyString \<or> weeks = Null then ''medium''
     else if js_lt weeks 4 then ''short''
     else if js_le weeks 24 then ''medium''
     else ''long'')"

text \<open>The build that counts months (line 433).\<close>

definition getDurationKey_months :: "jsarg \<Rightarrow> string" where
  "getDurationKey_months months =
    (if months = EmptyString \<or> months = Null then ''medium''
     else if js_lt months 1 then ''short''
     else if js_le months 6 then ''medium''
     else ''long'')"

subsection \<open>\<open>calculate\<close>\<close>

text \<open>The count rule (lines 107--121): the category and the adder.\<close>

definition countRule :: "nat \<Rightarrow> string \<times> rat" where
  "countRule symptomCount =
    (if symptomCount \<ge> 4 then (''High'', 0.25)
     else if symptomCount \<ge> 2 then (''Moderate'', 0.10)
     else if symptomCount = 1 then (''Low'', 0.05)
     else (''Low'', 0))"

text \<open>The clamping (lines 147--148 and 490--491): two tests in sequence.\<close>

definition clamp :: "jsnum \<Rightarrow> jsnum" where
  "clamp currentRisk =
    (let currentRisk = (if num_gt currentRisk 0.99 then Num 0.99 else currentRisk);
         currentRisk = (if num_lt currentRisk 0.05 then Num 0.05 else currentRisk)
     in currentRisk)"

text \<open>The label (lines 151--153 and 494--496).\<close>

definition finalLabel :: "jsnum \<Rightarrow> string" where
  "finalLabel currentRisk =
    (if num_ge currentRisk 0.70 then ''High Risk''
     else if num_ge currentRisk 0.30 then ''Moderate Risk''
     else ''Low Risk'')"

text \<open>
  The combination rule of the first build (line 141):
  \<open>brand === 'Almont' && comboDrugs.includes('Levocetirizine')\<close>. The right operand is
  evaluated only when the left one holds; \<open>.includes\<close> on an absent \<open>comboDrugs\<close>
  throws a \<open>TypeError\<close>.
\<close>

definition comboRule :: "string option \<Rightarrow> string list option \<Rightarrow> error + bool" where
  "comboRule brand comboDrugs =
    (if brand = Some ''Almont'' then
       (case comboDrugs of
          None \<Rightarrow> Inl TypeError
        | Some drugs \<Rightarrow> Inr (''Levocetirizine'' \<in> set drugs))
     else Inr False)"

record Details_months =
  base :: jsprop
  symptomCat :: string
  hasHighSeverity :: bool

record Details = Details_months +
  isCriticalCombo :: bool

record 'd RiskResult =
  percentage :: jsnum
  label :: string
  details :: 'd

text \<open>
  The local variables of \<open>calculate\<close> once the clamping is done (line 148);
  \<open>currentRisk\<close> is then the final risk fraction. The locals \<open>hasHighSeverity\<close> and
  \<open>isCriticalCombo\<close> are the fields \<open>highSeverity\<close> and \<open>criticalCombo\<close> here, since the
  result record has fields of the former names.
\<close>

record Locals =
  ageGroup :: string
  duration :: string
  baseRisk :: jsprop
  doseMult :: jsprop
  durMult :: jsprop
  symptomCount :: nat
  symptomAdder :: rat
  symptomRiskCategory :: string
  highSeverity :: bool
  criticalCombo :: bool
  currentRisk :: jsnum

text \<open>
  Lines 93--136, common to both builds: the risk after the baseline, the dose and the
  duration, the count rule, the severity boost and the temporal rule. The duration key is
  a parameter, since the builds differ in \<open>getDurationKey\<close> only.
\<close>

definition riskSteps :: "jsarg \<Rightarrow> string \<Rightarrow> string \<Rightarrow> string list \<Rightarrow> bool \<Rightarrow> Locals" where
  "riskSteps ageInput dose durationKey selectedSymptoms temporalAssociation =
    (let ageGroup = getAgeGroupKey ageInput;
         baseRisk = js_or (js_get AGE_BASELINES ageGroup) 0.14;
         doseMult = js_or (js_get DOSE_MULTIPLIERS dose) 1.0;
         durMult = js_or (js_get DURATION_MULTIPLIERS durationKey) 1.0;
         currentRisk = js_times (js_times (toNumber baseRisk) (toNumber doseMult)) (toNumber durMult);
         symptomCount = length selectedSymptoms;
         (symptomRiskCategory, symptomAdder) = countRule symptomCount;
         currentRisk = js_plus currentRisk (Num symptomAdder);
         hasHighSeverity = list_ex (\<lambda>s. s \<in> set HIGH_RISK) selectedSymptoms;
         currentRisk = (if hasHighSeverity then Math_max currentRisk (Num 0.75) else currentRisk);
         symptomRiskCategory = (if hasHighSeverity then ''High (Severity)'' else symptomRiskCategory);
         currentRisk = (if temporalAssociation then js_times currentRisk (Num 1.15) else currentRisk)
     in \<lparr> ageGroup = ageGroup, duration = durationKey, baseRisk = baseRisk, doseMult = doseMult,
          durMult = durMult, symptomCount = symptomCount, symptomAdder = symptomAdder,
          symptomRiskCategory = symptomRiskCategory, highSeverity = hasHighSeverity,
          criticalCombo = False, currentRisk = currentRisk \<rparr>)"

text \<open>The first build, lines 93--148: the local variables after the clamping.\<close>

definition calculate_locals ::
  "jsarg \<Rightarrow> string \<Rightarrow> jsarg \<Rightarrow> string list \<Rightarrow> bool \<Rightarrow> string option \<Rightarrow> string list option
    \<Rightarrow> error + Locals" where
  "calculate_locals ageInput dose durationWeeks selectedSymptoms temporalAssociation brand comboDrugs =
    (let st = riskSteps ageInput dose (getDurationKey durationWeeks) selectedSymptoms temporalAssociation
     in case comboRule brand comboDrugs of
          Inl e \<Rightarrow> Inl e
        | Inr isCritical \<Rightarrow>
            (let risk = (if isCritical then Num 0.96 else currentRisk st)
             in Inr (st \<lparr> criticalCombo := isCritical, currentRisk := clamp risk \<rparr>)))"

text \<open>The first build, whole (lines 92--165).\<close>

definition calculate ::
  "jsarg \<Rightarrow> string \<Rightarrow> jsarg \<Rightarrow> string list \<Rightarrow> bool \<Rightarrow> string option \<Rightarrow> string list option
    \<Rightarrow> error + Details RiskResult" where
  "calculate ageInput dose durationWeeks selectedSymptoms temporalAssociation brand comboDrugs =
    (case calculate_locals ageInput dose durationWeeks selectedSymptoms temporalAssociation brand comboDrugs of
       Inl e \<Rightarrow> Inl e
     | Inr st \<Rightarrow>
         Inr \<lparr> percentage = Math_round (js_times (currentRisk st) (Num 100)),
               label = finalLabel (currentRisk st),
               details = \<lparr> base = baseRisk st,
                           symptomCat = symptomRiskCategory st,
                           hasHighSeverity = highSeverity st,
                           isCriticalCombo = criticalCombo st \<rparr> \<rparr>)"

text \<open>The second build (lines 443--507): no combination rule, hence no failing branch.\<close>

definition calculate_months_locals ::
  "jsarg \<Rightarrow> string \<Rightarrow> jsarg \<Rightarrow> string list \<Rightarrow> bool \<Rightarrow> Locals" where
  "calculate_months_locals ageInput dose durationInput selectedSymptoms temporalAssociation =
    (let st = riskSteps ageInput dose (getDurationKey_months durationInput) selectedSymptoms temporalAssociation
     in st \<lparr> currentRisk := clamp (currentRisk st) \<rparr>)"

definition calculate_months ::
  "jsarg \<Rightarrow> string \<Rightarrow> jsarg \<Rightarrow> string list \<Rightarrow> bool \<Rightarrow> Details_months RiskResult" where
  "calculate_months ageInput dose durationInput selectedSymptoms temporalAssociation =
    (let st = calculate_months_locals ageInput dose durationInput selectedSymptoms temporalAssociation
     in \<lparr> percentage = Math_round (js_times (currentRisk st) (Num 100)),
          label = finalLabel (currentRisk st),
          details = \<lparr> base = baseRisk st,
                      symptomCat = symptomRiskCategory st,
                      hasHighSeverity = highSeverity st \<rparr> \<rparr>)"

section \<open>Properties\<close>


lemma getAgeGroupKey_range:
  "getAgeGroupKey age \<in> {''16-18'', ''13-15'', ''10-12'', ''7-9'', ''4-6'', ''1-3''}"
  by (simp add: getAgeGroupKey_def)

lemma getDurationKey_range: "getDurationKey weeks \<in> {''short'', ''medium'', ''long''}"
  by (simp add: getDurationKey_def)

lemma getDurationKey_months_range: "getDurationKey_months months \<in> {''short'', ''medium'', ''long''}"
  by (simp add: getDurationKey_months_def)

lemma baseRisk_value:
  "k \<in> {''16-18'', ''13-15'', ''10-12'', ''7-9'', ''4-6'', ''1-3''} \<Longrightarrow>
   js_or (js_get AGE_BASELINES k) 0.14 \<in> {PNum 0.14, PNum 0.325, PNum 0.535, PNum 0.69, PNum 0.85, PNum 0.94}"
  by (auto simp add: js_get_def AGE_BASELINES_def)

lemma durMult_value:
  "k \<in> {''short'', ''medium'', ''long''} \<Longrightarrow>
   js_or (js_get DURATION_MULTIPLIERS k) 1.0 \<in> {PNum 1.0, PNum 1.1, PNum 1.2}"
  by (auto simp add: js_get_def DURATION_MULTIPLIERS_def)

lemma doseMult_value:
  "js_or (js_get DOSE_MULTIPLIERS dose) 1.0 \<in> {PNum 1.0, PNum 1.1, PNum 1.25, PObject}"
  by (auto simp add: js_get_def DOSE_MULTIPLIERS_def)

lemma doseMult_own:
  "dose \<notin> set OBJECT_PROTOTYPE \<Longrightarrow>
   js_or (js_get DOSE_MULTIPLIERS dose) 1.0 \<in> {PNum 1.0, PNum 1.1, PNum 1.25}"
  by (auto simp add: js_get_def DOSE_MULTIPLIERS_def)

lemma doseMult_inherited:
  "dose \<in> set OBJECT_PROTOTYPE \<Longrightarrow> js_or (js_get DOSE_MULTIPLIERS dose) 1.0 = PObject"
  by (auto simp add: js_get_def DOSE_MULTIPLIERS_def OBJECT_PROTOTYPE_def)

lemma clamp_Num: "clamp (Num x) = Num (if x > 0.99 then 0.99 else if x < 0.05 then 0.05 else x)"
  by (simp add: clamp_def Let_def)

lemma clamp_NaN: "clamp NaN = NaN"
  by (simp add: clamp_def Let_def)

lemma clamp_range: "\<exists>f. clamp (Num x) = Num f \<and> 0.05 \<le> f \<and> f \<le> 0.99"
  by (simp add: clamp_Num)

lemma round_range:
  assumes "0.05 \<le> f" "f \<le> (0.99::rat)"
  shows "\<exists>p. Math_round (js_times (Num f) (Num 100)) = Num (of_int p) \<and> 5 \<le> p \<and> p \<le> 99"
proof -
  have "5 \<le> \<lfloor>f * 100 + 1/2\<rfloor>" using assms by (simp add: le_floor_iff)
  moreover have "\<lfloor>f * 100 + 1/2\<rfloor> \<le> 99" using assms by (simp add: floor_le_iff)
  ultimately show ?thesis by simp
qed


lemma riskSteps_eq:
  "riskSteps ageInput dose durationKey selectedSymptoms temporalAssociation =
    \<lparr> ageGroup = getAgeGroupKey ageInput,
      duration = durationKey,
      baseRisk = js_or (js_get AGE_BASELINES (getAgeGroupKey ageInput)) 0.14,
      doseMult = js_or (js_get DOSE_MULTIPLIERS dose) 1.0,
      durMult = js_or (js_get DURATION_MULTIPLIERS durationKey) 1.0,
      symptomCount = length selectedSymptoms,
      symptomAdder = snd (countRule (length selectedSymptoms)),
      symptomRiskCategory =
        (if list_ex (\<lambda>s. s \<in> set HIGH_RISK) selectedSymptoms then ''High (Severity)''
         else fst (countRule (length selectedSymptoms))),
      highSeverity = list_ex (\<lambda>s. s \<in> set HIGH_RISK) selectedSymptoms,
      criticalCombo = False,
      currentRisk =
        (let r0 = js_plus
                    (js_times
                       (js_times (toNumber (js_or (js_get AGE_BASELINES (getAgeGroupKey ageInput)) 0.14))
                                 (toNumber (js_or (js_get DOSE_MULTIPLIERS dose) 1.0)))
                       (toNumber (js_or (js_get DURATION_MULTIPLIERS durationKey) 1.0)))
                    (Num (snd (countRule (length selectedSymptoms))));
             r1 = (if list_ex (\<lambda>s. s \<in> set HIGH_RISK) selectedSymptoms
                   then Math_max r0 (Num 0.75) else r0)
         in if temporalAssociation then js_times r1 (Num 1.15) else r1) \<rparr>"
  by (simp add: riskSteps_def Let_def split: prod.split)

lemma riskSteps_Num:
  assumes "dose \<notin> set OBJECT_PROTOTYPE" and "k \<in> {''short'', ''medium'', ''long''}"
  shows "currentRisk (riskSteps ageInput dose k selectedSymptoms temporalAssociation) \<noteq> NaN"
proof -
  obtain b where b: "js_or (js_get AGE_BASELINES (getAgeGroupKey ageInput)) 0.14 = PNum b"
    using baseRisk_value [OF getAgeGroupKey_range, of ageInput] by auto
  obtain d where d: "js_or (js_get DOSE_MULTIPLIERS dose) 1.0 = PNum d"
    using doseMult_own [OF assms(1)] by auto
  obtain u where u: "js_or (js_get DURATION_MULTIPLIERS k) 1.0 = PNum u"
    using durMult_value [OF assms(2)] by auto
  show ?thesis
    using b d u by (simp add: riskSteps_eq Let_def)
qed

lemma riskSteps_NaN:
  assumes "dose \<in> set OBJECT_PROTOTYPE"
  shows "currentRisk (riskSteps ageInput dose k selectedSymptoms temporalAssociation) = NaN"
proof -
  obtain b where b: "js_or (js_get AGE_BASELINES (getAgeGroupKey ageInput)) 0.14 = PNum b"
    using baseRisk_value [OF getAgeGroupKey_range, of ageInput] by auto
  show ?thesis
    using b doseMult_inherited [OF assms] by (simp add: riskSteps_eq Let_def)
qed

lemma riskSteps_severity:
  assumes "currentRisk (riskSteps ageInput dose k selectedSymptoms temporalAssociation) = Num x"
    and "list_ex (\<lambda>s. s \<in> set HIGH_RISK) selectedSymptoms"
  shows "0.75 \<le> x"
proof -
  let ?r0 = "js_plus
               (js_times
                  (js_times (toNumber (js_or (js_get AGE_BASELINES (getAgeGroupKey ageInput)) 0.14))
                            (toNumber (js_or (js_get DOSE_MULTIPLIERS dose) 1.0)))
                  (toNumber (js_or (js_get DURATION_MULTIPLIERS k) 1.0)))
               (Num (snd (countRule (length selectedSymptoms))))"
  show ?thesis
  proof (cases ?r0)
    case NaN
    with assms show ?thesis by (simp add: riskSteps_eq Let_def split: if_splits)
  next
    case (Num y)
    have "(0.75::rat) \<le> max y 0.75 * 1.15"
      by (rule order_trans [where y = "0.75 * 1.15"]) (simp_all add: max_def)
    moreover have "(0.75::rat) \<le> max y 0.75" by simp
    ultimately show ?thesis
      using assms Num by (auto simp add: riskSteps_eq Let_def split: if_splits)
  qed
qed


lemma calculate_locals_Inr:
  assumes "calculate_locals ageInput dose durationWeeks selectedSymptoms temporalAssociation brand comboDrugs = Inr st"
  shows "\<exists>isCritical. comboRule brand comboDrugs = Inr isCritical \<and>
        st = (riskSteps ageInput dose (getDurationKey durationWeeks) selectedSymptoms temporalAssociation)
               \<lparr> criticalCombo := isCritical,
                 currentRisk := clamp (if isCritical then Num 0.96
                   else currentRisk (riskSteps ageInput dose (getDurationKey durationWeeks)
                          selectedSymptoms temporalAssociation)) \<rparr>"
proof (cases "comboRule brand comboDrugs")
  case (Inl e)
  with assms show ?thesis by (simp add: calculate_locals_def)
next
  case (Inr c)
  with assms have "(riskSteps ageInput dose (getDurationKey durationWeeks) selectedSymptoms temporalAssociation)
               \<lparr> criticalCombo := c,
                 currentRisk := clamp (if c then Num 0.96
                   else currentRisk (riskSteps ageInput dose (getDurationKey durationWeeks)
                          selectedSymptoms temporalAssociation)) \<rparr> = st"
    unfolding calculate_locals_def Let_def by (cases c) simp_all
  then show ?thesis using Inr by blast
qed

lemma calculate_range_own_dose:
  assumes "dose \<notin> set OBJECT_PROTOTYPE"
    and "calculate_locals ageInput dose durationWeeks selectedSymptoms temporalAssociation brand comboDrugs = Inr st"
  shows "\<exists>f. currentRisk st = Num f \<and> 0.05 \<le> f \<and> f \<le> 0.99"
proof -
  let ?rs = "riskSteps ageInput dose (getDurationKey durationWeeks) selectedSymptoms temporalAssociation"
  obtain isCritical where st: "st = ?rs \<lparr> criticalCombo := isCritical,
      currentRisk := clamp (if isCritical then Num 0.96 else currentRisk ?rs) \<rparr>"
    using calculate_locals_Inr [OF assms(2)] by blast
  have "currentRisk ?rs \<noteq> NaN"
    by (rule riskSteps_Num [OF assms(1) getDurationKey_range])
  then obtain x where "currentRisk ?rs = Num x" by (cases "currentRisk ?rs") auto
  then have "currentRisk st = clamp (Num (if isCritical then 0.96 else x))"
    by (simp add: st)
  then show ?thesis using clamp_range [of "if isCritical then 0.96 else x"] by simp
qed

lemma calculate_percentage_own_dose:
  assumes "dose \<notin> set OBJECT_PROTOTYPE"
    and "calculate ageInput dose durationWeeks selectedSymptoms temporalAssociation brand comboDrugs = Inr r"
  shows "\<exists>p. percentage r = Num (of_int p) \<and> 5 \<le> p \<and> p \<le> 99"
proof -
  from assms(2) obtain st where
    st: "calculate_locals ageInput dose durationWeeks selectedSymptoms temporalAssociation brand comboDrugs = Inr st"
    and r: "percentage r = Math_round (js_times (currentRisk st) (Num 100))"
    by (auto simp add: calculate_def split: sum.splits)
  from calculate_range_own_dose [OF assms(1) st] obtain f
    where "currentRisk st = Num f" "0.05 \<le> f" "f \<le> 0.99" by blast
  then show ?thesis using round_range [of f] r by simp
qed

lemma calculate_severity_own_dose:
  assumes "dose \<notin> set OBJECT_PROTOTYPE"
    and "\<exists>s \<in> set selectedSymptoms. s \<in> set HIGH_RISK"
    and "calculate_locals ageInput dose durationWeeks selectedSymptoms temporalAssociation brand comboDrugs = Inr st"
  shows "\<exists>f. currentRisk st = Num f \<and> 0.75 \<le> f" and "symptomRiskCategory st = ''High (Severity)''"
proof -
  let ?rs = "riskSteps ageInput dose (getDurationKey durationWeeks) selectedSymptoms temporalAssociation"
  have hs: "list_ex (\<lambda>s. s \<in> set HIGH_RISK) selectedSymptoms"
    using assms(2) by (simp add: list_ex_iff)
  obtain isCritical where st: "st = ?rs \<lparr> criticalCombo := isCritical,
      currentRisk := clamp (if isCritical then Num 0.96 else currentRisk ?rs) \<rparr>"
    using calculate_locals_Inr [OF assms(3)] by blast
  have "currentRisk ?rs \<noteq> NaN"
    by (rule riskSteps_Num [OF assms(1) getDurationKey_range])
  then obtain x where x: "currentRisk ?rs = Num x" by (cases "currentRisk ?rs") auto
  have "0.75 \<le> x" by (rule riskSteps_severity [OF x hs])
  then have "0.75 \<le> (if isCritical then 0.96 else x)" by simp
  moreover have "currentRisk st = clamp (Num (if isCritical then 0.96 else x))"
    by (simp add: st x)
  ultimately show "\<exists>f. currentRisk st = Num f \<and> 0.75 \<le> f"
    by (simp add: clamp_Num)
  show "symptomRiskCategory st = ''High (Severity)''"
    using hs by (simp add: st riskSteps_eq)
qed


lemma calculate_Inr:
  assumes "calculate ageInput dose durationWeeks selectedSymptoms temporalAssociation brand comboDrugs = Inr r"
  shows "\<exists>st. calculate_locals ageInput dose durationWeeks selectedSymptoms temporalAssociation brand comboDrugs = Inr st \<and>
     r = \<lparr> percentage = Math_round (js_times (currentRisk st) (Num 100)),
           label = finalLabel (currentRisk st),
           details = \<lparr> base = baseRisk st, symptomCat = symptomRiskCategory st,
                       hasHighSeverity = highSeverity st, isCriticalCombo = criticalCombo st \<rparr> \<rparr>"
proof (cases "calculate_locals ageInput dose durationWeeks selectedSymptoms temporalAssociation brand comboDrugs")
  case (Inl e)
  with assms show ?thesis by (simp add: calculate_def)
next
  case (Inr st)
  with assms show ?thesis by (simp add: calculate_def)
qed

text \<open>
  Claim C1: for every input the final risk fraction lies in \<open>[0.05, 0.99]\<close> and the
  percentage in \<open>[5, 99]\<close>.

  The code does not keep this for a dose that names a property inherited from
  \<open>Object.prototype\<close>. For the dose \<open>"constructor"\<close> the read of line 100 yields a function,
  which is truthy, so \<open>|| 1.0\<close> does not replace it; the product of line 104 is \<open>NaN\<close>; both
  tests of the clamping (lines 147--148) are false on \<open>NaN\<close>; and \<open>Math.round\<close> returns
  \<open>NaN\<close>. The fraction and the percentage are \<open>NaN\<close>, in neither range. For every other
  dose both ranges hold: lemmas \<open>calculate_range_own_dose\<close> and
  \<open>calculate_percentage_own_dose\<close>.
\<close>
theorem calculate_inherited_dose_NaN:
  "calculate_locals (Number 8) ''constructor'' (Number 12) [] True (Some ''Singulair'') (Some []) =
     Inr \<lparr> ageGroup = ''7-9'', duration = ''medium'', baseRisk = PNum 0.69, doseMult = PObject,
           durMult = PNum 1.1, symptomCount = 0, symptomAdder = 0, symptomRiskCategory = ''Low'',
           highSeverity = False, criticalCombo = False, currentRisk = NaN \<rparr>
   \<and> calculate (Number 8) ''constructor'' (Number 12) [] True (Some ''Singulair'') (Some []) =
     Inr \<lparr> percentage = NaN, label = ''Low Risk'',
           details = \<lparr> base = PNum 0.69, symptomCat = ''Low'', hasHighSeverity = False,
                       isCriticalCombo = False \<rparr> \<rparr>"
  by code_simp

text \<open>
  Claim C2: when the symptom list holds a symptom of \<open>HIGH_RISK\<close>, the clamped fraction is
  at least \<open>0.75\<close> and \<open>details.symptomCat\<close> is \<open>"High (Severity)"\<close>.

  The category is always as claimed, and so is the fraction for every dose that names no
  inherited property (lemma \<open>calculate_severity_own_dose\<close>). For the dose \<open>"toString"\<close>
  the risk is \<open>NaN\<close> before the boost, \<open>Math.max(NaN, 0.75)\<close> is \<open>NaN\<close>, and the final
  fraction is \<open>NaN\<close>, which is not at least \<open>0.75\<close>: the same defect as under C1.
\<close>
theorem calculate_severity_inherited_dose_NaN:
  "calculate_locals (Number 8) ''toString'' (Number 12) [''Suicide attempt''] False (Some ''Singulair'') (Some []) =
     Inr \<lparr> ageGroup = ''7-9'', duration = ''medium'', baseRisk = PNum 0.69, doseMult = PObject,
           durMult = PNum 1.1, symptomCount = 1, symptomAdder = 0.05,
           symptomRiskCategory = ''High (Severity)'',
           highSeverity = True, criticalCombo = False, currentRisk = NaN \<rparr>
   \<and> \<not> num_ge NaN 0.75"
  by code_simp

text \<open>
  Claim C3: with brand \<open>"Almont"\<close> and \<open>"Levocetirizine"\<close> among the co-administered drugs,
  \<open>calculate\<close> returns the percentage 96, the label \<open>"High Risk"\<close> and
  \<open>isCriticalCombo = true\<close>, whatever the other arguments are (also a dose for which the
  arithmetic gives \<open>NaN\<close>), while \<open>symptomCat\<close> and \<open>hasHighSeverity\<close> are those of the
  symptom steps: the same as in the call without brand and drugs.
\<close>
theorem critical_combo_override:
  assumes "brand = Some ''Almont''" and "''Levocetirizine'' \<in> set drugs"
  shows "\<exists>r. calculate ageInput dose durationWeeks selectedSymptoms temporalAssociation brand (Some drugs) = Inr r
      \<and> percentage r = Num 96 \<and> label r = ''High Risk'' \<and> isCriticalCombo (details r)
      \<and> hasHighSeverity (details r) = (\<exists>s \<in> set selectedSymptoms. s \<in> set HIGH_RISK)
      \<and> symptomCat (details r) =
          (if \<exists>s \<in> set selectedSymptoms. s \<in> set HIGH_RISK then ''High (Severity)''
           else if length selectedSymptoms \<ge> 4 then ''High''
           else if length selectedSymptoms \<ge> 2 then ''Moderate'' else ''Low'')
      \<and> (\<exists>r'. calculate ageInput dose durationWeeks selectedSymptoms temporalAssociation None None = Inr r'
            \<and> \<not> isCriticalCombo (details r')
            \<and> symptomCat (details r) = symptomCat (details r')
            \<and> hasHighSeverity (details r) = hasHighSeverity (details r'))"
proof -
  have combo: "comboRule brand (Some drugs) = Inr True"
    using assms by (simp add: comboRule_def)
  have none: "comboRule None None = Inr False"
    by (simp add: comboRule_def)
  have cl: "clamp (Num 0.96) = Num 0.96" by (simp add: clamp_Num)
  have lab: "finalLabel (Num 0.96) = ''High Risk''" by (simp add: finalLabel_def)
  have rnd: "Math_round (js_times (Num 0.96) (Num 100)) = Num 96" by code_simp
  show ?thesis
    using combo none cl lab rnd
    by (simp add: calculate_def calculate_locals_def Let_def riskSteps_eq list_ex_iff countRule_def)
qed

theorem critical_combo_override_witness:
  "Some ''Almont'' = Some ''Almont'' \<and> ''Levocetirizine'' \<in> set [''Levocetirizine'']
   \<and> calculate (Number 17) ''4mg'' (Number 2) [''Anxiety''] False None None =
       Inr \<lparr> percentage = Num 19, label = ''Low Risk'',
             details = \<lparr> base = PNum 0.14, symptomCat = ''Low'', hasHighSeverity = False,
                         isCriticalCombo = False \<rparr> \<rparr>
   \<and> (\<exists>r. calculate (Number 17) ''4mg'' (Number 2) [''Anxiety''] False (Some ''Almont'') (Some [''Levocetirizine'']) = Inr r
        \<and> percentage r = Num 96 \<and> label r = ''High Risk'' \<and> isCriticalCombo (details r)
        \<and> symptomCat (details r) = ''Low'' \<and> \<not> hasHighSeverity (details r))"
proof -
  have h1: "Some ''Almont'' = Some ''Almont''" by simp
  have h2: "''Levocetirizine'' \<in> set [''Levocetirizine'']" by simp
  have plain: "calculate (Number 17) ''4mg'' (Number 2) [''Anxiety''] False None None =
       Inr \<lparr> percentage = Num 19, label = ''Low Risk'',
             details = \<lparr> base = PNum 0.14, symptomCat = ''Low'', hasHighSeverity = False,
                         isCriticalCombo = False \<rparr> \<rparr>"
    by code_simp
  from critical_combo_override [OF h1 h2, of "Number 17" "''4mg''" "Number 2" "[''Anxiety'']" False]
  obtain r where r: "calculate (Number 17) ''4mg'' (Number 2) [''Anxiety''] False (Some ''Almont'') (Some [''Levocetirizine'']) = Inr r"
    "percentage r = Num 96" "label r = ''High Risk''" "isCriticalCombo (details r)"
    and r': "\<exists>r'. calculate (Number 17) ''4mg'' (Number 2) [''Anxiety''] False None None = Inr r'
            \<and> symptomCat (details r) = symptomCat (details r')
            \<and> hasHighSeverity (details r) = hasHighSeverity (details r')"
    by blast
  from r' plain have "symptomCat (details r) = ''Low''" "\<not> hasHighSeverity (details r)"
    by auto
  with r h1 h2 plain show ?thesis by blast
qed

text \<open>
  Claim C4 says that \<open>calculate\<close> returns for every input, any \<open>brand\<close> and \<open>comboDrugs\<close>
  value included. With the brand \<open>"Almont"\<close> and \<open>comboDrugs\<close> absent, line 141 calls
  \<open>.includes\<close> on \<open>undefined\<close> and throws a \<open>TypeError\<close>.
\<close>
theorem calculate_absent_comboDrugs_throws:
  "calculate (Number 8) ''5mg'' (Number 12) [] True (Some ''Almont'') None = Inl TypeError"
  by code_simp

text \<open>
  Claim C4, amended: \<open>calculate\<close> returns a result record, without raising, for every
  input in which the brand is not \<open>"Almont"\<close> or \<open>comboDrugs\<close> is a list. (The build that
  counts months has no failing branch: \<open>calculate_months\<close> returns a record for every input.)
\<close>
theorem calculate_returns:
  assumes "brand \<noteq> Some ''Almont'' \<or> comboDrugs \<noteq> None"
  shows "\<exists>r. calculate ageInput dose durationWeeks selectedSymptoms temporalAssociation brand comboDrugs = Inr r"
proof -
  have "\<exists>c. comboRule brand comboDrugs = Inr c"
    using assms by (auto simp add: comboRule_def split: option.splits)
  then show ?thesis
    by (auto simp add: calculate_def calculate_locals_def Let_def)
qed

theorem calculate_returns_witness:
  "Some ''Singulair'' \<noteq> Some ''Almont'' \<and>
   (\<exists>r. calculate (Number 8) ''5mg'' (Number 12) [] True (Some ''Singulair'') None = Inr r) \<and>
   (\<exists>r. calculate (Number 8) ''5mg'' (Number 12) [] True (Some ''Almont'') (Some []) = Inr r)"
proof -
  have h1: "Some ''Singulair'' \<noteq> Some ''Almont'' \<or> (None :: string list option) \<noteq> None"
    by simp
  have h2: "Some ''Almont'' \<noteq> Some ''Almont'' \<or> Some ([] :: string list) \<noteq> None"
    by simp
  show ?thesis using calculate_returns [OF h1] calculate_returns [OF h2] by simp
qed

text \<open>
  Claim C5: the label is read off the clamped fraction, not the rounded percentage:
  \<open>"High Risk"\<close> from \<open>0.70\<close>, \<open>"Moderate Risk"\<close> from \<open>0.30\<close>, \<open>"Low Risk"\<close> otherwise
  (a \<open>NaN\<close> fraction fails both tests and is labelled \<open>"Low Risk"\<close>). In the witness the
  fraction is \<open>0.299\<close>: the label is \<open>"Low Risk"\<close> although the percentage rounds to 30.
\<close>
theorem label_from_clamped_fraction:
  assumes "calculate_locals ageInput dose durationWeeks selectedSymptoms temporalAssociation brand comboDrugs = Inr st"
  shows "\<exists>r. calculate ageInput dose durationWeeks selectedSymptoms temporalAssociation brand comboDrugs = Inr r \<and>
     label r =
       (case currentRisk st of
          Num f \<Rightarrow> if f \<ge> 0.70 then ''High Risk'' else if f \<ge> 0.30 then ''Moderate Risk'' else ''Low Risk''
        | NaN \<Rightarrow> ''Low Risk'')"
  using assms by (simp add: calculate_def finalLabel_def split: jsnum.split)

theorem label_from_clamped_fraction_witness:
  "calculate_locals (Number 17) ''10mg'' (Number 30) [''Anxiety''] True None None =
     Inr \<lparr> ageGroup = ''16-18'', duration = ''long'', baseRisk = PNum 0.14, doseMult = PNum 1.25,
           durMult = PNum 1.2, symptomCount = 1, symptomAdder = 0.05, symptomRiskCategory = ''Low'',
           highSeverity = False, criticalCombo = False, currentRisk = Num 0.299 \<rparr> \<and>
   (\<exists>r. calculate (Number 17) ''10mg'' (Number 30) [''Anxiety''] True None None = Inr r \<and>
        label r = ''Low Risk'')"
proof -
  have h: "calculate_locals (Number 17) ''10mg'' (Number 30) [''Anxiety''] True None None =
     Inr \<lparr> ageGroup = ''16-18'', duration = ''long'', baseRisk = PNum 0.14, doseMult = PNum 1.25,
           durMult = PNum 1.2, symptomCount = 1, symptomAdder = 0.05, symptomRiskCategory = ''Low'',
           highSeverity = False, criticalCombo = False, currentRisk = Num 0.299 \<rparr>"
    by code_simp
  show ?thesis using h label_from_clamped_fraction [OF h] by simp
qed


lemma calculate_locals_fields:
  assumes "calculate_locals ageInput dose durationWeeks selectedSymptoms temporalAssociation brand comboDrugs = Inr st"
  shows "baseRisk st = js_or (js_get AGE_BASELINES (getAgeGroupKey ageInput)) 0.14"
    and "doseMult st = js_or (js_get DOSE_MULTIPLIERS dose) 1.0"
    and "duration st = getDurationKey durationWeeks"
    and "durMult st = js_or (js_get DURATION_MULTIPLIERS (getDurationKey durationWeeks)) 1.0"
    and "symptomCount st = length selectedSymptoms"
    and "symptomAdder st = snd (countRule (length selectedSymptoms))"
    and "highSeverity st = list_ex (\<lambda>s. s \<in> set HIGH_RISK) selectedSymptoms"
    and "symptomRiskCategory st =
          (if list_ex (\<lambda>s. s \<in> set HIGH_RISK) selectedSymptoms then ''High (Severity)''
           else fst (countRule (length selectedSymptoms)))"
    and "comboRule brand comboDrugs = Inr (criticalCombo st)"
  using calculate_locals_Inr [OF assms] by (auto simp add: riskSteps_eq)

lemma calculate_locals_plain:
  assumes "calculate_locals ageInput dose durationWeeks selectedSymptoms temporalAssociation brand comboDrugs = Inr st"
    and "baseRisk st = PNum b" and "doseMult st = PNum d" and "durMult st = PNum u"
    and "\<not> highSeverity st" and "\<not> temporalAssociation" and "\<not> criticalCombo st"
  shows "currentRisk st = clamp (Num (b * d * u + symptomAdder st))"
proof -
  note f = calculate_locals_fields [OF assms(1)]
  obtain c where st: "st = (riskSteps ageInput dose (getDurationKey durationWeeks) selectedSymptoms temporalAssociation)
               \<lparr> criticalCombo := c,
                 currentRisk := clamp (if c then Num 0.96
                   else currentRisk (riskSteps ageInput dose (getDurationKey durationWeeks)
                          selectedSymptoms temporalAssociation)) \<rparr>"
    using calculate_locals_Inr [OF assms(1)] by blast
  have c: "\<not> c" using assms(7) by (subst (asm) st) simp
  have "currentRisk (riskSteps ageInput dose (getDurationKey durationWeeks) selectedSymptoms temporalAssociation)
        = Num (b * d * u + symptomAdder st)"
    using assms(2-6) f(1-4,6,7) by (simp add: riskSteps_eq Let_def)
  then show ?thesis using c by (subst st) simp
qed

text \<open>
  Claim C6: the baseline that \<open>calculate\<close> uses and reports in \<open>details.base\<close> is \<open>0.14\<close>
  from age 16, \<open>0.325\<close> on \<open>[13,16)\<close>, \<open>0.535\<close> on \<open>[10,13)\<close>, \<open>0.69\<close> on \<open>[7,10)\<close>,
  \<open>0.85\<close> on \<open>[4,7)\<close>, \<open>0.94\<close> on \<open>[1,4)\<close>, and \<open>0.69\<close> for a falsy age (absent, \<open>null\<close>,
  \<open>''\<close>, \<open>NaN\<close>, \<open>0\<close>).
\<close>
theorem age_baseline:
  assumes "calculate ageInput dose durationWeeks selectedSymptoms temporalAssociation brand comboDrugs = Inr r"
  shows "(ageInput = Number a \<and> 16 \<le> a \<longrightarrow> base (details r) = PNum 0.14)
       \<and> (ageInput = Number a \<and> 13 \<le> a \<and> a < 16 \<longrightarrow> base (details r) = PNum 0.325)
       \<and> (ageInput = Number a \<and> 10 \<le> a \<and> a < 13 \<longrightarrow> base (details r) = PNum 0.535)
       \<and> (ageInput = Number a \<and> 7 \<le> a \<and> a < 10 \<longrightarrow> base (details r) = PNum 0.69)
       \<and> (ageInput = Number a \<and> 4 \<le> a \<and> a < 7 \<longrightarrow> base (details r) = PNum 0.85)
       \<and> (ageInput = Number a \<and> 1 \<le> a \<and> a < 4 \<longrightarrow> base (details r) = PNum 0.94)
       \<and> (ageInput \<in> {Undefined, Null, EmptyString, NotANumber, Number 0} \<longrightarrow> base (details r) = PNum 0.69)"
proof -
  from calculate_Inr [OF assms] obtain st where
    st: "calculate_locals ageInput dose durationWeeks selectedSymptoms temporalAssociation brand comboDrugs = Inr st"
    and r: "base (details r) = baseRisk st" by auto
  have b: "base (details r) = js_or (js_get AGE_BASELINES (getAgeGroupKey ageInput)) 0.14"
    using calculate_locals_fields(1) [OF st] r by simp
  show ?thesis
    unfolding b by (auto simp add: getAgeGroupKey_def js_get_def AGE_BASELINES_def)
qed

theorem age_baseline_witness:
  "(\<exists>r. calculate (Number 17) ''4mg'' (Number 2) [] False None None = Inr r \<and> base (details r) = PNum 0.14)
   \<and> (\<exists>r. calculate (Number 14) ''4mg'' (Number 2) [] False None None = Inr r \<and> base (details r) = PNum 0.325)
   \<and> (\<exists>r. calculate (Number 11) ''4mg'' (Number 2) [] False None None = Inr r \<and> base (details r) = PNum 0.535)
   \<and> (\<exists>r. calculate (Number 8) ''4mg'' (Number 2) [] False None None = Inr r \<and> base (details r) = PNum 0.69)
   \<and> (\<exists>r. calculate (Number 5) ''4mg'' (Number 2) [] False None None = Inr r \<and> base (details r) = PNum 0.85)
   \<and> (\<exists>r. calculate (Number 2) ''4mg'' (Number 2) [] False None None = Inr r \<and> base (details r) = PNum 0.94)
   \<and> (\<exists>r. calculate Undefined ''4mg'' (Number 2) [] False None None = Inr r \<and> base (details r) = PNum 0.69)"
proof -
  have w0: "\<exists>r. calculate (Number 17) ''4mg'' (Number 2) [] False None None = Inr r \<and> base (details r) = PNum 0.14"
  proof -
    have "calculate (Number 17) ''4mg'' (Number 2) [] False None None =
        Inr \<lparr> percentage = Num 14, label = ''Low Risk'',
           details = \<lparr> base = PNum 0.14, symptomCat = ''Low'', hasHighSeverity = False,
                       isCriticalCombo = False \<rparr> \<rparr>"
      by code_simp
    then obtain r where h: "calculate (Number 17) ''4mg'' (Number 2) [] False None None = Inr r"
      by blast
    from age_baseline [OF h, of 17] have "base (details r) = PNum 0.14" by simp
    with h show ?thesis by blast
  qed
  have w1: "\<exists>r. calculate (Number 14) ''4mg'' (Number 2) [] False None None = Inr r \<and> base (details r) = PNum 0.325"
  proof -
    have "calculate (Number 14) ''4mg'' (Number 2) [] False None None =
        Inr \<lparr> percentage = Num 33, label = ''Moderate Risk'',
           details = \<lparr> base = PNum 0.325, symptomCat = ''Low'', hasHighSeverity = False,
                       isCriticalCombo = False \<rparr> \<rparr>"
      by code_simp
    then obtain r where h: "calculate (Number 14) ''4mg'' (Number 2) [] False None None = Inr r"
      by blast
    from age_baseline [OF h, of 14] have "base (details r) = PNum 0.325" by simp
    with h show ?thesis by blast
  qed
  have w2: "\<exists>r. calculate (Number 11) ''4mg'' (Number 2) [] False None None = Inr r \<and> base (details r) = PNum 0.535"
  proof -
    have "calculate (Number 11) ''4mg'' (Number 2) [] False None None =
        Inr \<lparr> percentage = Num 54, label = ''Moderate Risk'',
           details = \<lparr> base = PNum 0.535, symptomCat = ''Low'', hasHighSeverity = False,
                       isCriticalCombo = False \<rparr> \<rparr>"
      by code_simp
    then obtain r where h: "calculate (Number 11) ''4mg'' (Number 2) [] False None None = Inr r"
      by blast
    from age_baseline [OF h, of 11] have "base (details r) = PNum 0.535" by simp
    with h show ?thesis by blast
  qed
  have w3: "\<exists>r. calculate (Number 8) ''4mg'' (Number 2) [] False None None = Inr r \<and> base (details r) = PNum 0.69"
  proof -
    have "calculate (Number 8) ''4mg'' (Number 2) [] False None None =
        Inr \<lparr> percentage = Num 69, label = ''Moderate Risk'',
           details = \<lparr> base = PNum 0.69, symptomCat = ''Low'', hasHighSeverity = False,
                       isCriticalCombo = False \<rparr> \<rparr>"
      by code_simp
    then obtain r where h: "calculate (Number 8) ''4mg'' (Number 2) [] False None None = Inr r"
      by blast
    from age_baseline [OF h, of 8] have "base (details r) = PNum 0.69" by simp
    with h show ?thesis by blast
  qed
  have w4: "\<exists>r. calculate (Number 5) ''4mg'' (Number 2) [] False None None = Inr r \<and> base (details r) = PNum 0.85"
  proof -
    have "calculate (Number 5) ''4mg'' (Number 2) [] False None None =
        Inr \<lparr> percentage = Num 85, label = ''High Risk'',
           details = \<lparr> base = PNum 0.85, symptomCat = ''Low'', hasHighSeverity = False,
                       isCriticalCombo = False \<rparr> \<rparr>"
      by code_simp
    then obtain r where h: "calculate (Number 5) ''4mg'' (Number 2) [] False None None = Inr r"
      by blast
    from age_baseline [OF h, of 5] have "base (details r) = PNum 0.85" by simp
    with h show ?thesis by blast
  qed
  have w5: "\<exists>r. calculate (Number 2) ''4mg'' (Number 2) [] False None None = Inr r \<and> base (details r) = PNum 0.94"
  proof -
    have "calculate (Number 2) ''4mg'' (Number 2) [] False None None =
        Inr \<lparr> percentage = Num 94, label = ''High Risk'',
           details = \<lparr> base = PNum 0.94, symptomCat = ''Low'', hasHighSeverity = False,
                       isCriticalCombo = False \<rparr> \<rparr>"
      by code_simp
    then obtain r where h: "calculate (Number 2) ''4mg'' (Number 2) [] False None None = Inr r"
      by blast
    from age_baseline [OF h, of 2] have "base (details r) = PNum 0.94" by simp
    with h show ?thesis by blast
  qed
  have w6: "\<exists>r. calculate Undefined ''4mg'' (Number 2) [] False None None = Inr r \<and> base (details r) = PNum 0.69"
  proof -
    have "calculate Undefined ''4mg'' (Number 2) [] False None None =
        Inr \<lparr> percentage = Num 69, label = ''Moderate Risk'',
           details = \<lparr> base = PNum 0.69, symptomCat = ''Low'', hasHighSeverity = False,
                       isCriticalCombo = False \<rparr> \<rparr>"
      by code_simp
    then obtain r where h: "calculate Undefined ''4mg'' (Number 2) [] False None None = Inr r"
      by blast
    from age_baseline [OF h, of 0] have "base (details r) = PNum 0.69" by simp
    with h show ?thesis by blast
  qed
  from w0 w1 w2 w3 w4 w5 w6 show ?thesis by blast
qed

text \<open>
  Claim C7 (the build that counts weeks): an empty-string or \<open>null\<close> duration is
  \<open>"medium"\<close>; a number is \<open>"short"\<close> below 4, \<open>"medium"\<close> on \<open>[4,24]\<close>, \<open>"long"\<close> above 24;
  the multiplier is \<open>1.0\<close>, \<open>1.1\<close>, \<open>1.2\<close> for the three keys, and it is a factor of the
  risk: without symptoms, temporal boost and critical combination the final fraction is the
  clamped product of baseline, dose multiplier and duration multiplier.
\<close>
theorem duration_category_weeks:
  assumes "calculate_locals ageInput dose durationWeeks selectedSymptoms temporalAssociation brand comboDrugs = Inr st"
  shows "(durationWeeks = EmptyString \<or> durationWeeks = Null \<longrightarrow> duration st = ''medium'')
       \<and> (durationWeeks = Number w \<and> w < 4 \<longrightarrow> duration st = ''short'')
       \<and> (durationWeeks = Number w \<and> 4 \<le> w \<and> w \<le> 24 \<longrightarrow> duration st = ''medium'')
       \<and> (durationWeeks = Number w \<and> 24 < w \<longrightarrow> duration st = ''long'')
       \<and> (duration st = ''short'' \<longrightarrow> durMult st = PNum 1.0)
       \<and> (duration st = ''medium'' \<longrightarrow> durMult st = PNum 1.1)
       \<and> (duration st = ''long'' \<longrightarrow> durMult st = PNum 1.2)
       \<and> (baseRisk st = PNum b \<and> doseMult st = PNum d \<and> durMult st = PNum u \<and> selectedSymptoms = []
            \<and> \<not> temporalAssociation \<and> \<not> criticalCombo st
           \<longrightarrow> currentRisk st = clamp (Num (b * d * u)))"
proof -
  note f = calculate_locals_fields [OF assms]
  have key: "(durationWeeks = EmptyString \<or> durationWeeks = Null \<longrightarrow> duration st = ''medium'')
       \<and> (durationWeeks = Number w \<and> w < 4 \<longrightarrow> duration st = ''short'')
       \<and> (durationWeeks = Number w \<and> 4 \<le> w \<and> w \<le> 24 \<longrightarrow> duration st = ''medium'')
       \<and> (durationWeeks = Number w \<and> 24 < w \<longrightarrow> duration st = ''long'')"
    unfolding f(3) by (auto simp add: getDurationKey_def)
  have mult: "(duration st = ''short'' \<longrightarrow> durMult st = PNum 1.0)
       \<and> (duration st = ''medium'' \<longrightarrow> durMult st = PNum 1.1)
       \<and> (duration st = ''long'' \<longrightarrow> durMult st = PNum 1.2)"
    unfolding f(3,4) by (simp add: js_get_def DURATION_MULTIPLIERS_def)
  have applied: "baseRisk st = PNum b \<and> doseMult st = PNum d \<and> durMult st = PNum u \<and> selectedSymptoms = []
            \<and> \<not> temporalAssociation \<and> \<not> criticalCombo st
           \<longrightarrow> currentRisk st = clamp (Num (b * d * u))"
  proof (intro impI, elim conjE)
    assume a: "baseRisk st = PNum b" "doseMult st = PNum d" "durMult st = PNum u"
      "selectedSymptoms = []" "\<not> temporalAssociation" "\<not> criticalCombo st"
    have "\<not> highSeverity st" using a(4) f(7) by simp
    moreover have "symptomAdder st = 0" using a(4) f(6) by (simp add: countRule_def)
    ultimately show "currentRisk st = clamp (Num (b * d * u))"
      using calculate_locals_plain [OF assms a(1-3) _ a(5,6)] by simp
  qed
  from key mult applied show ?thesis by blast
qed

theorem duration_category_weeks_witness:
  "(\<exists>st. calculate_locals (Number 17) ''4mg'' EmptyString [] False None None = Inr st \<and> duration st = ''medium'' \<and> durMult st = PNum 1.1 \<and> currentRisk st = Num 0.154)
   \<and> (\<exists>st. calculate_locals (Number 17) ''4mg'' Null [] False None None = Inr st \<and> duration st = ''medium'' \<and> durMult st = PNum 1.1 \<and> currentRisk st = Num 0.154)
   \<and> (\<exists>st. calculate_locals (Number 17) ''4mg'' (Number 2) [] False None None = Inr st \<and> duration st = ''short'' \<and> durMult st = PNum 1.0 \<and> currentRisk st = Num 0.14)
   \<and> (\<exists>st. calculate_locals (Number 17) ''4mg'' (Number 12) [] False None None = Inr st \<and> duration st = ''medium'' \<and> durMult st = PNum 1.1 \<and> currentRisk st = Num 0.154)
   \<and> (\<exists>st. calculate_locals (Number 17) ''4mg'' (Number 30) [] False None None = Inr st \<and> duration st = ''long'' \<and> durMult st = PNum 1.2 \<and> currentRisk st = Num 0.168)"
proof -
  have w0: "\<exists>st. calculate_locals (Number 17) ''4mg'' EmptyString [] False None None = Inr st \<and> duration st = ''medium'' \<and> durMult st = PNum 1.1 \<and> currentRisk st = Num 0.154"
  proof -
    have "calculate_locals (Number 17) ''4mg'' EmptyString [] False None None =
        Inr \<lparr> ageGroup = ''16-18'', duration = ''medium'', baseRisk = PNum 0.14, doseMult = PNum 1.0,
             durMult = PNum 1.1, symptomCount = 0, symptomAdder = 0, symptomRiskCategory = ''Low'',
             highSeverity = False, criticalCombo = False, currentRisk = Num 0.154 \<rparr>"
      by code_simp
    then obtain st where h: "calculate_locals (Number 17) ''4mg'' EmptyString [] False None None = Inr st"
      and f: "baseRisk st = PNum 0.14" "doseMult st = PNum 1.0" "\<not> criticalCombo st"
      by simp
    note t = duration_category_weeks [OF h, of 0 "0.14" "1.0" "1.1"]
    from t have k: "duration st = ''medium''" by simp
    with t have u: "durMult st = PNum 1.1" by simp
    with t f have "currentRisk st = clamp (Num (0.14 * 1.0 * 1.1))" by simp
    also have "\<dots> = Num 0.154" by code_simp
    finally show ?thesis using h k u by blast
  qed
  have w1: "\<exists>st. calculate_locals (Number 17) ''4mg'' Null [] False None None = Inr st \<and> duration st = ''medium'' \<and> durMult st = PNum 1.1 \<and> currentRisk st = Num 0.154"
  proof -
    have "calculate_locals (Number 17) ''4mg'' Null [] False None None =
        Inr \<lparr> ageGroup = ''16-18'', duration = ''medium'', baseRisk = PNum 0.14, doseMult = PNum 1.0,
             durMult = PNum 1.1, symptomCount = 0, symptomAdder = 0, symptomRiskCategory = ''Low'',
             highSeverity = False, criticalCombo = False, currentRisk = Num 0.154 \<rparr>"
      by code_simp
    then obtain st where h: "calculate_locals (Number 17) ''4mg'' Null [] False None None = Inr st"
      and f: "baseRisk st = PNum 0.14" "doseMult st = PNum 1.0" "\<not> criticalCombo st"
      by simp
    note t = duration_category_weeks [OF h, of 0 "0.14" "1.0" "1.1"]
    from t have k: "duration st = ''medium''" by simp
    with t have u: "durMult st = PNum 1.1" by simp
    with t f have "currentRisk st = clamp (Num (0.14 * 1.0 * 1.1))" by simp
    also have "\<dots> = Num 0.154" by code_simp
    finally show ?thesis using h k u by blast
  qed
  have w2: "\<exists>st. calculate_locals (Number 17) ''4mg'' (Number 2) [] False None None = Inr st \<and> duration st = ''short'' \<and> durMult st = PNum 1.0 \<and> currentRisk st = Num 0.14"
  proof -
    have "calculate_locals (Number 17) ''4mg'' (Number 2) [] False None None =
        Inr \<lparr> ageGroup = ''16-18'', duration = ''short'', baseRisk = PNum 0.14, doseMult = PNum 1.0,
             durMult = PNum 1.0, symptomCount = 0, symptomAdder = 0, symptomRiskCategory = ''Low'',
             highSeverity = False, criticalCombo = False, currentRisk = Num 0.14 \<rparr>"
      by code_simp
    then obtain st where h: "calculate_locals (Number 17) ''4mg'' (Number 2) [] False None None = Inr st"
      and f: "baseRisk st = PNum 0.14" "doseMult st = PNum 1.0" "\<not> criticalCombo st"
      by simp
    note t = duration_category_weeks [OF h, of 2 "0.14" "1.0" "1.0"]
    from t have k: "duration st = ''short''" by simp
    with t have u: "durMult st = PNum 1.0" by simp
    with t f have "currentRisk st = clamp (Num (0.14 * 1.0 * 1.0))" by simp
    also have "\<dots> = Num 0.14" by code_simp
    finally show ?thesis using h k u by blast
  qed
  have w3: "\<exists>st. calculate_locals (Number 17) ''4mg'' (Number 12) [] False None None = Inr st \<and> duration st = ''medium'' \<and> durMult st = PNum 1.1 \<and> currentRisk st = Num 0.154"
  proof -
    have "calculate_locals (Number 17) ''4mg'' (Number 12) [] False None None =
        Inr \<lparr> ageGroup = ''16-18'', duration = ''medium'', baseRisk = PNum 0.14, doseMult = PNum 1.0,
             durMult = PNum 1.1, symptomCount = 0, symptomAdder = 0, symptomRiskCategory = ''Low'',
             highSeverity = False, criticalCombo = False, currentRisk = Num 0.154 \<rparr>"
      by code_simp
    then obtain st where h: "calculate_locals (Number 17) ''4mg'' (Number 12) [] False None None = Inr st"
      and f: "baseRisk st = PNum 0.14" "doseMult st = PNum 1.0" "\<not> criticalCombo st"
      by simp
    note t = duration_category_weeks [OF h, of 12 "0.14" "1.0" "1.1"]
    from t have k: "duration st = ''medium''" by simp
    with t have u: "durMult st = PNum 1.1" by simp
    with t f have "currentRisk st = clamp (Num (0.14 * 1.0 * 1.1))" by simp
    also have "\<dots> = Num 0.154" by code_simp
    finally show ?thesis using h k u by blast
  qed
  have w4: "\<exists>st. calculate_locals (Number 17) ''4mg'' (Number 30) [] False None None = Inr st \<and> duration st = ''long'' \<and> durMult st = PNum 1.2 \<and> currentRisk st = Num 0.168"
  proof -
    have "calculate_locals (Number 17) ''4mg'' (Number 30) [] False None None =
        Inr \<lparr> ageGroup = ''16-18'', duration = ''long'', baseRisk = PNum 0.14, doseMult = PNum 1.0,
             durMult = PNum 1.2, symptomCount = 0, symptomAdder = 0, symptomRiskCategory = ''Low'',
             highSeverity = False, criticalCombo = False, currentRisk = Num 0.168 \<rparr>"
      by code_simp
    then obtain st where h: "calculate_locals (Number 17) ''4mg'' (Number 30) [] False None None = Inr st"
      and f: "baseRisk st = PNum 0.14" "doseMult st = PNum 1.0" "\<not> criticalCombo st"
      by simp
    note t = duration_category_weeks [OF h, of 30 "0.14" "1.0" "1.2"]
    from t have k: "duration st = ''long''" by simp
    with t have u: "durMult st = PNum 1.2" by simp
    with t f have "currentRisk st = clamp (Num (0.14 * 1.0 * 1.2))" by simp
    also have "\<dots> = Num 0.168" by code_simp
    finally show ?thesis using h k u by blast
  qed
  from w0 w1 w2 w3 w4 show ?thesis by blast
qed


text \<open>
  Claim C8: the adder is a step function of the length of the symptom list: \<open>0\<close> for no
  symptom, \<open>0.05\<close> for one, \<open>0.10\<close> for two or three, \<open>0.25\<close> from four; the symptom-load
  category of the count is \<open>"Low"\<close>, \<open>"Low"\<close>, \<open>"Moderate"\<close>, \<open>"High"\<close>, and it is the reported
  category unless a high-severity symptom overrides it. The adder is added to the product:
  without severity boost, temporal boost and critical combination the final fraction is the
  clamped sum.
\<close>
theorem symptom_count_rule:
  assumes "calculate_locals ageInput dose durationWeeks selectedSymptoms temporalAssociation brand comboDrugs = Inr st"
  shows "(length selectedSymptoms = 0 \<longrightarrow> symptomAdder st = 0 \<and> fst (countRule (symptomCount st)) = ''Low'')
       \<and> (length selectedSymptoms = 1 \<longrightarrow> symptomAdder st = 0.05 \<and> fst (countRule (symptomCount st)) = ''Low'')
       \<and> (2 \<le> length selectedSymptoms \<and> length selectedSymptoms \<le> 3 \<longrightarrow>
            symptomAdder st = 0.10 \<and> fst (countRule (symptomCount st)) = ''Moderate'')
       \<and> (4 \<le> length selectedSymptoms \<longrightarrow>
            symptomAdder st = 0.25 \<and> fst (countRule (symptomCount st)) = ''High'')
       \<and> (\<not> highSeverity st \<longrightarrow> symptomRiskCategory st = fst (countRule (symptomCount st)))
       \<and> (baseRisk st = PNum b \<and> doseMult st = PNum d \<and> durMult st = PNum u
            \<and> \<not> highSeverity st \<and> \<not> temporalAssociation \<and> \<not> criticalCombo st
           \<longrightarrow> currentRisk st = clamp (Num (b * d * u + symptomAdder st)))"
proof -
  note f = calculate_locals_fields [OF assms]
  have count: "(length selectedSymptoms = 0 \<longrightarrow> symptomAdder st = 0 \<and> fst (countRule (symptomCount st)) = ''Low'')
       \<and> (length selectedSymptoms = 1 \<longrightarrow> symptomAdder st = 0.05 \<and> fst (countRule (symptomCount st)) = ''Low'')
       \<and> (2 \<le> length selectedSymptoms \<and> length selectedSymptoms \<le> 3 \<longrightarrow>
            symptomAdder st = 0.10 \<and> fst (countRule (symptomCount st)) = ''Moderate'')
       \<and> (4 \<le> length selectedSymptoms \<longrightarrow>
            symptomAdder st = 0.25 \<and> fst (countRule (symptomCount st)) = ''High'')"
    unfolding f(5,6) by (simp add: countRule_def)
  have cat: "\<not> highSeverity st \<longrightarrow> symptomRiskCategory st = fst (countRule (symptomCount st))"
    unfolding f(5,7,8) by simp
  have added: "baseRisk st = PNum b \<and> doseMult st = PNum d \<and> durMult st = PNum u
            \<and> \<not> highSeverity st \<and> \<not> temporalAssociation \<and> \<not> criticalCombo st
           \<longrightarrow> currentRisk st = clamp (Num (b * d * u + symptomAdder st))"
    using calculate_locals_plain [OF assms] by blast
  from count cat added show ?thesis by blast
qed

theorem symptom_count_rule_witness:
  "(\<exists>st. calculate_locals (Number 17) ''4mg'' (Number 2) [] False None None = Inr st
        \<and> symptomAdder st = 0 \<and> symptomRiskCategory st = ''Low'' \<and> currentRisk st = Num 0.14)
   \<and> (\<exists>st. calculate_locals (Number 17) ''4mg'' (Number 2) [''Anxiety''] False None None = Inr st
        \<and> symptomAdder st = 0.05 \<and> symptomRiskCategory st = ''Low'' \<and> currentRisk st = Num 0.19)
   \<and> (\<exists>st. calculate_locals (Number 17) ''4mg'' (Number 2) [''Anxiety'', ''Fatigue''] False None None = Inr st
        \<and> symptomAdder st = 0.10 \<and> symptomRiskCategory st = ''Moderate'' \<and> currentRisk st = Num 0.24)
   \<and> (\<exists>st. calculate_locals (Number 17) ''4mg'' (Number 2) [''Anxiety'', ''Fatigue'', ''Nightmares''] False None None = Inr st
        \<and> symptomAdder st = 0.10 \<and> symptomRiskCategory st = ''Moderate'' \<and> currentRisk st = Num 0.24)
   \<and> (\<exists>st. calculate_locals (Number 17) ''4mg'' (Number 2) [''Anxiety'', ''Fatigue'', ''Nightmares'', ''Irritability''] False None None = Inr st
        \<and> symptomAdder st = 0.25 \<and> symptomRiskCategory st = ''High'' \<and> currentRisk st = Num 0.39)
   \<and> (\<exists>st. calculate_locals (Number 17) ''4mg'' (Number 2) [''Anxiety'', ''Fatigue'', ''Nightmares'', ''Irritability'', ''Restlessness''] False None None = Inr st
        \<and> symptomAdder st = 0.25 \<and> symptomRiskCategory st = ''High'' \<and> currentRisk st = Num 0.39)"
proof -
  have w0: "\<exists>st. calculate_locals (Number 17) ''4mg'' (Number 2) [] False None None = Inr st
        \<and> symptomAdder st = 0 \<and> symptomRiskCategory st = ''Low'' \<and> currentRisk st = Num 0.14"
  proof -
    have "calculate_locals (Number 17) ''4mg'' (Number 2) [] False None None =
        Inr \<lparr> ageGroup = ''16-18'', duration = ''short'', baseRisk = PNum 0.14, doseMult = PNum 1.0,
             durMult = PNum 1.0, symptomCount = 0, symptomAdder = 0, symptomRiskCategory = ''Low'',
             highSeverity = False, criticalCombo = False, currentRisk = Num 0.14 \<rparr>"
      by code_simp
    then obtain st where h: "calculate_locals (Number 17) ''4mg'' (Number 2) [] False None None = Inr st"
      and f: "baseRisk st = PNum 0.14" "doseMult st = PNum 1.0" "durMult st = PNum 1.0"
        "\<not> highSeverity st" "\<not> criticalCombo st"
      by simp
    note t = symptom_count_rule [OF h, of "0.14" "1.0" "1.0"]
    from t have a: "symptomAdder st = 0" and c: "fst (countRule (symptomCount st)) = ''Low''" by simp_all
    from t f c have c': "symptomRiskCategory st = ''Low''" by simp
    from t f a have "currentRisk st = clamp (Num (0.14 * 1.0 * 1.0 + 0))" by simp
    also have "\<dots> = Num 0.14" by code_simp
    finally show ?thesis using h a c' by blast
  qed
  have w1: "\<exists>st. calculate_locals (Number 17) ''4mg'' (Number 2) [''Anxiety''] False None None = Inr st
        \<and> symptomAdder st = 0.05 \<and> symptomRiskCategory st = ''Low'' \<and> currentRisk st = Num 0.19"
  proof -
    have "calculate_locals (Number 17) ''4mg'' (Number 2) [''Anxiety''] False None None =
        Inr \<lparr> ageGroup = ''16-18'', duration = ''short'', baseRisk = PNum 0.14, doseMult = PNum 1.0,
             durMult = PNum 1.0, symptomCount = 1, symptomAdder = 0.05, symptomRiskCategory = ''Low'',
             highSeverity = False, criticalCombo = False, currentRisk = Num 0.19 \<rparr>"
      by code_simp
    then obtain st where h: "calculate_locals (Number 17) ''4mg'' (Number 2) [''Anxiety''] False None None = Inr st"
      and f: "baseRisk st = PNum 0.14" "doseMult st = PNum 1.0" "durMult st = PNum 1.0"
        "\<not> highSeverity st" "\<not> criticalCombo st"
      by simp
    note t = symptom_count_rule [OF h, of "0.14" "1.0" "1.0"]
    from t have a: "symptomAdder st = 0.05" and c: "fst (countRule (symptomCount st)) = ''Low''" by simp_all
    from t f c have c': "symptomRiskCategory st = ''Low''" by simp
    from t f a have "currentRisk st = clamp (Num (0.14 * 1.0 * 1.0 + 0.05))" by simp
    also have "\<dots> = Num 0.19" by code_simp
    finally show ?thesis using h a c' by blast
  qed
  have w2: "\<exists>st. calculate_locals (Number 17) ''4mg'' (Number 2) [''Anxiety'', ''Fatigue''] False None None = Inr st
        \<and> symptomAdder st = 0.10 \<and> symptomRiskCategory st = ''Moderate'' \<and> currentRisk st = Num 0.24"
  proof -
    have "calculate_locals (Number 17) ''4mg'' (Number 2) [''Anxiety'', ''Fatigue''] False None None =
        Inr \<lparr> ageGroup = ''16-18'', duration = ''short'', baseRisk = PNum 0.14, doseMult = PNum 1.0,
             durMult = PNum 1.0, symptomCount = 2, symptomAdder = 0.10, symptomRiskCategory = ''Moderate'',
             highSeverity = False, criticalCombo = False, currentRisk = Num 0.24 \<rparr>"
      by code_simp
    then obtain st where h: "calculate_locals (Number 17) ''4mg'' (Number 2) [''Anxiety'', ''Fatigue''] False None None = Inr st"
      and f: "baseRisk st = PNum 0.14" "doseMult st = PNum 1.0" "durMult st = PNum 1.0"
        "\<not> highSeverity st" "\<not> criticalCombo st"
      by simp
    note t = symptom_count_rule [OF h, of "0.14" "1.0" "1.0"]
    from t have a: "symptomAdder st = 0.10" and c: "fst (countRule (symptomCount st)) = ''Moderate''" by simp_all
    from t f c have c': "symptomRiskCategory st = ''Moderate''" by simp
    from t f a have "currentRisk st = clamp (Num (0.14 * 1.0 * 1.0 + 0.10))" by simp
    also have "\<dots> = Num 0.24" by code_simp
    finally show ?thesis using h a c' by blast
  qed
  have w3: "\<exists>st. calculate_locals (Number 17) ''4mg'' (Number 2) [''Anxiety'', ''Fatigue'', ''Nightmares''] False None None = Inr st
        \<and> symptomAdder st = 0.10 \<and> symptomRiskCategory st = ''Moderate'' \<and> currentRisk st = Num 0.24"
  proof -
    have "calculate_locals (Number 17) ''4mg'' (Number 2) [''Anxiety'', ''Fatigue'', ''Nightmares''] False None None =
        Inr \<lparr> ageGroup = ''16-18'', duration = ''short'', baseRisk = PNum 0.14, doseMult = PNum 1.0,
             durMult = PNum 1.0, symptomCount = 3, symptomAdder = 0.10, symptomRiskCategory = ''Moderate'',
             highSeverity = False, criticalCombo = False, currentRisk = Num 0.24 \<rparr>"
      by code_simp
    then obtain st where h: "calculate_locals (Number 17) ''4mg'' (Number 2) [''Anxiety'', ''Fatigue'', ''Nightmares''] False None None = Inr st"
      and f: "baseRisk st = PNum 0.14" "doseMult st = PNum 1.0" "durMult st = PNum 1.0"
        "\<not> highSeverity st" "\<not> criticalCombo st"
      by simp
    note t = symptom_count_rule [OF h, of "0.14" "1.0" "1.0"]
    from t have a: "symptomAdder st = 0.10" and c: "fst (countRule (symptomCount st)) = ''Moderate''" by simp_all
    from t f c have c': "symptomRiskCategory st = ''Moderate''" by simp
    from t f a have "currentRisk st = clamp (Num (0.14 * 1.0 * 1.0 + 0.10))" by simp
    also have "\<dots> = Num 0.24" by code_simp
    finally show ?thesis using h a c' by blast
  qed
  have w4: "\<exists>st. calculate_locals (Number 17) ''4mg'' (Number 2) [''Anxiety'', ''Fatigue'', ''Nightmares'', ''Irritability''] False None None = Inr st
        \<and> symptomAdder st = 0.25 \<and> symptomRiskCategory st = ''High'' \<and> currentRisk st = Num 0.39"
  proof -
    have "calculate_locals (Number 17) ''4mg'' (Number 2) [''Anxiety'', ''Fatigue'', ''Nightmares'', ''Irritability''] False None None =
        Inr \<lparr> ageGroup = ''16-18'', duration = ''short'', baseRisk = PNum 0.14, doseMult = PNum 1.0,
             durMult = PNum 1.0, symptomCount = 4, symptomAdder = 0.25, symptomRiskCategory = ''High'',
             highSeverity = False, criticalCombo = False, currentRisk = Num 0.39 \<rparr>"
      by code_simp
    then obtain st where h: "calculate_locals (Number 17) ''4mg'' (Number 2) [''Anxiety'', ''Fatigue'', ''Nightmares'', ''Irritability''] False None None = Inr st"
      and f: "baseRisk st = PNum 0.14" "doseMult st = PNum 1.0" "durMult st = PNum 1.0"
        "\<not> highSeverity st" "\<not> criticalCombo st"
      by simp
    note t = symptom_count_rule [OF h, of "0.14" "1.0" "1.0"]
    from t have a: "symptomAdder st = 0.25" and c: "fst (countRule (symptomCount st)) = ''High''" by simp_all
    from t f c have c': "symptomRiskCategory st = ''High''" by simp
    from t f a have "currentRisk st = clamp (Num (0.14 * 1.0 * 1.0 + 0.25))" by simp
    also have "\<dots> = Num 0.39" by code_simp
    finally show ?thesis using h a c' by blast
  qed
  have w5: "\<exists>st. calculate_locals (Number 17) ''4mg'' (Number 2) [''Anxiety'', ''Fatigue'', ''Nightmares'', ''Irritability'', ''Restlessness''] False None None = Inr st
        \<and> symptomAdder st = 0.25 \<and> symptomRiskCategory st = ''High'' \<and> currentRisk st = Num 0.39"
  proof -
    have "calculate_locals (Number 17) ''4mg'' (Number 2) [''Anxiety'', ''Fatigue'', ''Nightmares'', ''Irritability'', ''Restlessness''] False None None =
        Inr \<lparr> ageGroup = ''16-18'', duration = ''short'', baseRisk = PNum 0.14, doseMult = PNum 1.0,
             durMult = PNum 1.0, symptomCount = 5, symptomAdder = 0.25, symptomRiskCategory = ''High'',
             highSeverity = False, criticalCombo = False, currentRisk = Num 0.39 \<rparr>"
      by code_simp
    then obtain st where h: "calculate_locals (Number 17) ''4mg'' (Number 2) [''Anxiety'', ''Fatigue'', ''Nightmares'', ''Irritability'', ''Restlessness''] False None None = Inr st"
      and f: "baseRisk st = PNum 0.14" "doseMult st = PNum 1.0" "durMult st = PNum 1.0"
        "\<not> highSeverity st" "\<not> criticalCombo st"
      by simp
    note t = symptom_count_rule [OF h, of "0.14" "1.0" "1.0"]
    from t have a: "symptomAdder st = 0.25" and c: "fst (countRule (symptomCount st)) = ''High''" by simp_all
    from t f c have c': "symptomRiskCategory st = ''High''" by simp
    from t f a have "currentRisk st = clamp (Num (0.14 * 1.0 * 1.0 + 0.25))" by simp
    also have "\<dots> = Num 0.39" by code_simp
    finally show ?thesis using h a c' by blast
  qed
  from w0 w1 w2 w3 w4 w5 show ?thesis by blast
qed


text \<open>
  Claim C9: \<open>calculate(8, "5mg", 12, [], true)\<close> in the build that counts weeks: baseline
  \<open>0.69\<close>, dose multiplier \<open>1.1\<close>, duration \<open>"medium"\<close> with multiplier \<open>1.1\<close>, no adder, risk
  \<open>0.69 * 1.1 * 1.1 * 1.15 = 0.960135\<close>, label \<open>"High Risk"\<close>, percentage 96. The same
  holds for the controller's initial state, brand \<open>"Singulair"\<close> and no co-administered drug.
\<close>
theorem calculate_example_weeks:
  "calculate_locals (Number 8) ''5mg'' (Number 12) [] True None None =
     Inr \<lparr> ageGroup = ''7-9'', duration = ''medium'', baseRisk = PNum 0.69, doseMult = PNum 1.1,
           durMult = PNum 1.1, symptomCount = 0, symptomAdder = 0, symptomRiskCategory = ''Low'',
           highSeverity = False, criticalCombo = False, currentRisk = Num 0.960135 \<rparr>
   \<and> (0.69 * 1.1 * 1.1 * 1.15 :: rat) = 0.960135
   \<and> calculate (Number 8) ''5mg'' (Number 12) [] True None None =
     Inr \<lparr> percentage = Num 96, label = ''High Risk'',
           details = \<lparr> base = PNum 0.69, symptomCat = ''Low'', hasHighSeverity = False,
                       isCriticalCombo = False \<rparr> \<rparr>
   \<and> calculate (Number 8) ''5mg'' (Number 12) [] True (Some ''Singulair'') (Some []) =
     Inr \<lparr> percentage = Num 96, label = ''High Risk'',
           details = \<lparr> base = PNum 0.69, symptomCat = ''Low'', hasHighSeverity = False,
                       isCriticalCombo = False \<rparr> \<rparr>"
  by code_simp

lemma getDurationKey_weeks_months:
  "getDurationKey (Number (4 * m)) = getDurationKey_months (Number m)"
  by (simp add: getDurationKey_def getDurationKey_months_def)

lemma calculate_Almont_absent_throws:
  "calculate ageInput dose durationWeeks selectedSymptoms temporalAssociation (Some ''Almont'') None
     = Inl TypeError"
  by (simp add: calculate_def calculate_locals_def comboRule_def Let_def)

text \<open>
  Claim C10 says that the build that counts weeks, called with \<open>4 * m\<close> weeks, agrees with
  the build that counts months, called with \<open>m\<close> months, provided that the brand is not
  \<open>"Almont"\<close> or \<open>comboDrugs\<close> does not contain \<open>"Levocetirizine"\<close>. An absent \<open>comboDrugs\<close>
  contains no drug, so the proviso holds for the brand \<open>"Almont"\<close> with \<open>comboDrugs\<close> absent;
  there line 141 throws a \<open>TypeError\<close> in the first build, while the second build returns
  99 and \<open>"High Risk"\<close>.
\<close>
theorem months_weeks_differ_absent_comboDrugs:
  "\<not> (\<exists>drugs. (None :: string list option) = Some drugs \<and> ''Levocetirizine'' \<in> set drugs)
   \<and> calculate (Number 8) ''5mg'' (Number (4 * 3)) [''Anxiety''] True (Some ''Almont'') None
        = Inl TypeError
   \<and> calculate_months (Number 8) ''5mg'' (Number 3) [''Anxiety''] True =
        \<lparr> percentage = Num 99, label = ''High Risk'',
          details = \<lparr> base = PNum 0.69, symptomCat = ''Low'', hasHighSeverity = False \<rparr> \<rparr>"
proof -
  have a: "\<not> (\<exists>drugs. (None :: string list option) = Some drugs \<and> ''Levocetirizine'' \<in> set drugs)"
    by simp
  have b: "calculate (Number 8) ''5mg'' (Number (4 * 3)) [''Anxiety''] True (Some ''Almont'') None
        = Inl TypeError"
    by code_simp
  have c: "calculate_months (Number 8) ''5mg'' (Number 3) [''Anxiety''] True =
        \<lparr> percentage = Num 99, label = ''High Risk'',
          details = \<lparr> base = PNum 0.69, symptomCat = ''Low'', hasHighSeverity = False \<rparr> \<rparr>"
    by code_simp
  from a b c show ?thesis by blast
qed

text \<open>
  Claim C10, amended: when the brand is not \<open>"Almont"\<close>, or \<open>comboDrugs\<close> is a list that
  does not contain \<open>"Levocetirizine"\<close>, the build that counts weeks, called with \<open>4 * m\<close>
  weeks, returns the percentage, label, baseline, symptom category and high-severity flag
  that the build that counts months returns for \<open>m\<close> months, for every number \<open>m\<close>.
\<close>
theorem months_weeks_agree:
  assumes "brand \<noteq> Some ''Almont'' \<or> (\<exists>drugs. comboDrugs = Some drugs \<and> ''Levocetirizine'' \<notin> set drugs)"
  shows "\<exists>r. calculate ageInput dose (Number (4 * m)) selectedSymptoms temporalAssociation brand comboDrugs = Inr r
      \<and> percentage r = percentage (calculate_months ageInput dose (Number m) selectedSymptoms temporalAssociation)
      \<and> label r = label (calculate_months ageInput dose (Number m) selectedSymptoms temporalAssociation)
      \<and> base (details r) = base (details (calculate_months ageInput dose (Number m) selectedSymptoms temporalAssociation))
      \<and> symptomCat (details r) = symptomCat (details (calculate_months ageInput dose (Number m) selectedSymptoms temporalAssociation))
      \<and> hasHighSeverity (details r) = hasHighSeverity (details (calculate_months ageInput dose (Number m) selectedSymptoms temporalAssociation))"
proof -
  have combo: "comboRule brand comboDrugs = Inr False"
    using assms by (auto simp add: comboRule_def)
  show ?thesis
    by (simp add: calculate_def calculate_locals_def calculate_months_def calculate_months_locals_def
        combo getDurationKey_weeks_months Let_def)
qed

theorem months_weeks_agree_witness:
  "(\<exists>drugs. Some [''Cetirizine''] = Some drugs \<and> ''Levocetirizine'' \<notin> set drugs)
   \<and> (\<exists>r. calculate (Number 8) ''5mg'' (Number (4 * 3)) [''Anxiety''] True (Some ''Almont'') (Some [''Cetirizine'']) = Inr r
        \<and> percentage r = percentage (calculate_months (Number 8) ''5mg'' (Number 3) [''Anxiety''] True)
        \<and> label r = label (calculate_months (Number 8) ''5mg'' (Number 3) [''Anxiety''] True)
        \<and> base (details r) = base (details (calculate_months (Number 8) ''5mg'' (Number 3) [''Anxiety''] True))
        \<and> symptomCat (details r) = symptomCat (details (calculate_months (Number 8) ''5mg'' (Number 3) [''Anxiety''] True))
        \<and> hasHighSeverity (details r) = hasHighSeverity (details (calculate_months (Number 8) ''5mg'' (Number 3) [''Anxiety''] True)))
   \<and> calculate_months (Number 8) ''5mg'' (Number 3) [''Anxiety''] True =
        \<lparr> percentage = Num 99, label = ''High Risk'',
          details = \<lparr> base = PNum 0.69, symptomCat = ''Low'', hasHighSeverity = False \<rparr> \<rparr>"
proof -
  have e: "\<exists>drugs. Some [''Cetirizine''] = Some drugs \<and> ''Levocetirizine'' \<notin> set drugs"
    by simp
  then have h: "Some ''Almont'' \<noteq> Some ''Almont'' \<or>
      (\<exists>drugs. Some [''Cetirizine''] = Some drugs \<and> ''Levocetirizine'' \<notin> set drugs)"
    by blast
  have m: "calculate_months (Number 8) ''5mg'' (Number 3) [''Anxiety''] True =
        \<lparr> percentage = Num 99, label = ''High Risk'',
          details = \<lparr> base = PNum 0.69, symptomCat = ''Low'', hasHighSeverity = False \<rparr> \<rparr>"
    by code_simp
  from months_weeks_agree [OF h, of "Number 8" "''5mg''" 3 "[''Anxiety'']" True] e m
  show ?thesis by blast
qed

end
